theory Spec2Isabelle
  imports Complex_Main
begin

section \<open>Floating-point values\<close>

text \<open>
  The simulator computes with Python and numpy floats. They are modelled without
  rounding: a finite float is an exact real number, and the three special values of
  IEEE 754 are kept, because the normalizer divides by a value that may be zero and
  numpy then answers \<open>inf\<close> or \<open>nan\<close> (with a warning) where plain Python would
  raise. Signed zeros and overflow are not modelled.
\<close>

datatype fval = Fin real | PInf | NInf | NaN

fun isnan :: "fval \<Rightarrow> bool" where
  "isnan NaN = True"
| "isnan _ = False"

fun isfinite :: "fval \<Rightarrow> bool" where
  "isfinite (Fin _) = True"
| "isfinite _ = False"

instantiation fval :: comm_monoid_add
begin

definition zero_fval :: fval where
  "zero_fval = Fin 0"

fun plus_fval :: "fval \<Rightarrow> fval \<Rightarrow> fval" where
  "plus_fval (Fin a) (Fin b) = Fin (a + b)"
| "plus_fval NaN _ = NaN"
| "plus_fval _ NaN = NaN"
| "plus_fval PInf NInf = NaN"
| "plus_fval NInf PInf = NaN"
| "plus_fval PInf _ = PInf"
| "plus_fval _ PInf = PInf"
| "plus_fval NInf _ = NInf"
| "plus_fval _ NInf = NInf"

instance
proof
  fix x y z :: fval
  show "0 + x = x"
    by (cases x; simp add: zero_fval_def)
  show "x + y = y + x"
    by (cases x; cases y; simp)
  show "x + y + z = x + (y + z)"
    by (cases x; cases y; cases z; simp)
qed

end

instantiation fval :: "{times, inverse, ord}"
begin

fun times_fval :: "fval \<Rightarrow> fval \<Rightarrow> fval" where
  "times_fval (Fin a) (Fin b) = Fin (a * b)"
| "times_fval NaN _ = NaN"
| "times_fval _ NaN = NaN"
| "times_fval PInf (Fin b) = (if b = 0 then NaN else if 0 < b then PInf else NInf)"
| "times_fval NInf (Fin b) = (if b = 0 then NaN else if 0 < b then NInf else PInf)"
| "times_fval (Fin a) PInf = (if a = 0 then NaN else if 0 < a then PInf else NInf)"
| "times_fval (Fin a) NInf = (if a = 0 then NaN else if 0 < a then NInf else PInf)"
| "times_fval PInf PInf = PInf"
| "times_fval PInf NInf = NInf"
| "times_fval NInf PInf = NInf"
| "times_fval NInf NInf = PInf"

text \<open>
  Division as numpy performs it on float64 scalars: a zero divisor gives an infinity of
  the dividend's sign, or \<open>nan\<close> for \<open>0 / 0\<close>; it does not raise.
\<close>

fun divide_fval :: "fval \<Rightarrow> fval \<Rightarrow> fval" where
  "divide_fval (Fin a) (Fin b) =
     (if b = 0 then (if a = 0 then NaN else if 0 < a then PInf else NInf)
      else Fin (a / b))"
| "divide_fval NaN _ = NaN"
| "divide_fval _ NaN = NaN"
| "divide_fval (Fin a) PInf = Fin 0"
| "divide_fval (Fin a) NInf = Fin 0"
| "divide_fval PInf (Fin b) = (if 0 \<le> b then PInf else NInf)"
| "divide_fval NInf (Fin b) = (if 0 \<le> b then NInf else PInf)"
| "divide_fval PInf PInf = NaN"
| "divide_fval PInf NInf = NaN"
| "divide_fval NInf PInf = NaN"
| "divide_fval NInf NInf = NaN"

definition inverse_fval :: "fval \<Rightarrow> fval" where
  "inverse_fval x = divide (Fin 1) x"

text \<open>Comparisons with \<open>nan\<close> are false.\<close>

fun less_fval :: "fval \<Rightarrow> fval \<Rightarrow> bool" where
  "less_fval (Fin a) (Fin b) = (a < b)"
| "less_fval NaN _ = False"
| "less_fval _ NaN = False"
| "less_fval NInf NInf = False"
| "less_fval NInf _ = True"
| "less_fval _ NInf = False"
| "less_fval PInf _ = False"
| "less_fval _ PInf = True"

fun less_eq_fval :: "fval \<Rightarrow> fval \<Rightarrow> bool" where
  "less_eq_fval (Fin a) (Fin b) = (a \<le> b)"
| "less_eq_fval NaN _ = False"
| "less_eq_fval _ NaN = False"
| "less_eq_fval NInf _ = True"
| "less_eq_fval _ PInf = True"
| "less_eq_fval _ NInf = False"
| "less_eq_fval PInf _ = False"

instance ..

end

section \<open>Pandas and numpy operations used by the simulator\<close>

text \<open>
  \<open>Series.sum()\<close> and \<open>Series.mean()\<close> skip \<open>nan\<close> entries (\<open>skipna=True\<close>);
  the sum of no values is \<open>0.0\<close> and the mean of no values is \<open>nan\<close>.
\<close>

definition pd_sum :: "fval list \<Rightarrow> fval" where
  "pd_sum xs = sum_list (filter (\<lambda>x. \<not> isnan x) xs)"

definition pd_mean :: "fval list \<Rightarrow> fval" where
  "pd_mean xs =
     (let vals = filter (\<lambda>x. \<not> isnan x) xs
      in if vals = [] then NaN else sum_list vals / Fin (real (length vals)))"

text \<open>\<open>np.cumsum\<close>: the running totals of a sequence, accumulated from the left.\<close>

fun cumsum_from :: "fval \<Rightarrow> fval list \<Rightarrow> fval list" where
  "cumsum_from acc [] = []"
| "cumsum_from acc (x # xs) = (acc + x) # cumsum_from (acc + x) xs"

fun cumsum :: "fval list \<Rightarrow> fval list" where
  "cumsum [] = []"
| "cumsum (x # xs) = x # cumsum_from x xs"

section \<open>Python errors and list operations\<close>

datatype py_error = ZeroDivisionError | IndexError | ValueError

text \<open>\<open>a % b\<close> on Python integers: floored, and raising on a zero divisor.\<close>

definition py_mod :: "int \<Rightarrow> int \<Rightarrow> py_error + int" where
  "py_mod a b = (if b = 0 then Inl ZeroDivisionError else Inr (a mod b))"

text \<open>\<open>range(n)\<close> and \<open>range(1, n + 1)\<close>: empty for \<open>n \<le> 0\<close>.\<close>

definition py_range :: "int \<Rightarrow> nat list" where
  "py_range n = [0..<nat n]"

definition py_range1 :: "int \<Rightarrow> nat list" where
  "py_range1 n = [1..<nat (n + 1)]"

text \<open>\<open>xs[:t]\<close>: a negative bound counts from the end, and the slice is clipped.\<close>

definition py_slice_to :: "'a list \<Rightarrow> int \<Rightarrow> 'a list" where
  "py_slice_to xs t =
     (if t < 0 then take (nat (int (length xs) + t)) xs else take (nat t) xs)"

text \<open>\<open>xs[-1] += v\<close> on a non-empty list; on an empty one Python raises.\<close>

definition add_to_last :: "fval list \<Rightarrow> fval \<Rightarrow> py_error + fval list" where
  "add_to_last xs v =
     (if xs = [] then Inl IndexError else Inr (butlast xs @ [last xs + v]))"

text \<open>\<open>series.iloc[-1]\<close>: the last entry, or an IndexError on an empty series.\<close>

definition iloc_last :: "'a list \<Rightarrow> py_error + 'a" where
  "iloc_last xs = (if xs = [] then Inl IndexError else Inr (last xs))"

section \<open>Data model (models.py)\<close>

record SimulationParameters =
  time_horizon_days :: int
  avg_request_size_kb :: fval
  avg_num_users :: int
  off_net_bandwidth_cost_per_gb :: fval
  on_net_bandwidth_cost_per_gb :: fval
  hardware_cost_off_net_per_month :: fval
  hardware_cost_on_net_per_month :: fval
  upfront_hardware_cost_off_net :: fval
  upfront_hardware_cost_on_net :: fval
  hardware_life_cycle_years :: int
  transfer_link_cost_per_gbps :: fval
  sla_percentage :: fval

text \<open>
  The traffic dataset is a data frame with the columns \<open>num_users\<close> and
  \<open>num_requests\<close> and the default index \<open>0 .. N - 1\<close>: a list of rows.
\<close>

record traffic_row =
  num_users :: fval
  num_requests :: fval

type_synonym dataset = "traffic_row list"

text \<open>The timeline data frame, one list per column.\<close>

record DataFrame =
  Day :: "nat list"
  On_Net_Cost :: "fval list"
  Off_Net_Cost :: "fval list"
  Sent_Requests :: "fval list"
  Sent_Data_Volume_GB :: "fval list"
  Active_Users :: "fval list"

text \<open>
  The recommendation is a fixed sentence in Canvas mode and, in AWS mode, a sentence
  formatted from the required bandwidth and the monthly transfer-link cost; the
  formatting of the two numbers is not modelled.
\<close>

datatype recommendation = Sentence string | BandwidthReport fval fval

record SimulationResults =
  timeline :: DataFrame
  final_recommendation :: recommendation
  aws_transfer_link_cost :: fval
  required_bandwidth_gbps :: fval

section \<open>The simulator (simulation.py)\<close>

record OffNetSimulator =
  params :: SimulationParameters
  user_data :: dataset

text \<open>
  \<open>adjust_dataset\<close> rescales both columns in place. No statement of it raises on a
  numeric frame: the mean of an empty column is \<open>nan\<close>, and the division is numpy's.
\<close>

definition adjust_dataset :: "OffNetSimulator \<Rightarrow> py_error + OffNetSimulator" where
  "adjust_dataset self =
     (let current_avg_users = pd_mean (map num_users (user_data self));
          adjustment_factor = Fin (of_int (avg_num_users (params self))) / current_avg_users
      in Inr (self\<lparr>user_data :=
           map (\<lambda>r. \<lparr>num_users = num_users r * adjustment_factor,
                      num_requests = num_requests r * adjustment_factor\<rparr>)
               (user_data self)\<rparr>))"

text \<open>The constructor stores its arguments and normalizes the dataset.\<close>

definition init :: "SimulationParameters \<Rightarrow> dataset \<Rightarrow> py_error + OffNetSimulator" where
  "init p d = adjust_dataset \<lparr>params = p, user_data = d\<rparr>"

text \<open>
  \<open>compute_aws_bandwidth\<close> returns the required bandwidth and the daily cost of the
  transfer link. Every divisor is a non-zero constant.
\<close>

definition compute_aws_bandwidth :: "OffNetSimulator \<Rightarrow> fval \<times> fval" where
  "compute_aws_bandwidth self =
     (let total_requests = pd_sum (map num_requests (user_data self));
          requests_per_second = total_requests / Fin (24 * 60 * 60);
          data_volume_per_second_gbps =
            requests_per_second * (avg_request_size_kb (params self) / Fin 1048576 / Fin 1024);
          required_bandwidth_gbps =
            data_volume_per_second_gbps * (sla_percentage (params self) / Fin 100);
          transfer_link_cost_daily =
            (required_bandwidth_gbps * transfer_link_cost_per_gbps (params self)) / Fin 30
      in (required_bandwidth_gbps, transfer_link_cost_daily))"

text \<open>
  The variables that the day loop of \<open>run_simulation\<close> updates. The variable
  \<open>required_bandwidth_gbps\<close> of the source is the field \<open>bandwidth_gbps\<close> here.
\<close>

record loop_state =
  on_net_costs :: "fval list"
  off_net_costs :: "fval list"
  sent_requests :: "fval list"
  sent_data_gb :: "fval list"
  active_users :: "fval list"
  bandwidth_gbps :: fval

text \<open>
  One iteration of the loop, for the given \<open>day\<close>. The two remainders can raise
  ZeroDivisionError: on an empty dataset, and on a life cycle of zero days.
\<close>

definition loop_body ::
  "OffNetSimulator \<Rightarrow> bool \<Rightarrow> fval \<Rightarrow> int \<Rightarrow> nat \<Rightarrow> loop_state \<Rightarrow> py_error + loop_state"
where
  "loop_body self compute_aws avg_request_size_gb hardware_life_cycle_days day st =
     (case py_mod (int day) (int (length (user_data self))) of
        Inl e \<Rightarrow> Inl e
      | Inr day_index \<Rightarrow>
          (let daily_users = num_users (user_data self ! nat day_index);
               daily_requests = num_requests (user_data self ! nat day_index);
               daily_data_volume = daily_requests * avg_request_size_gb;
               bandwidth =
                 (if compute_aws then fst (compute_aws_bandwidth self) else bandwidth_gbps st);
               on_net_total_cost =
                 (if compute_aws
                  then hardware_cost_on_net_per_month (params self) / Fin 30
                       + snd (compute_aws_bandwidth self)
                  else daily_data_volume * on_net_bandwidth_cost_per_gb (params self)
                       + hardware_cost_on_net_per_month (params self) / Fin 30);
               off_net_total_cost =
                 daily_data_volume * off_net_bandwidth_cost_per_gb (params self)
                 + hardware_cost_off_net_per_month (params self) / Fin 30
           in case py_mod (int day + 1) hardware_life_cycle_days of
                Inl e \<Rightarrow> Inl e
              | Inr m \<Rightarrow>
                  (case (if m = 0
                         then add_to_last (on_net_costs st)
                                (upfront_hardware_cost_on_net (params self))
                         else Inr (on_net_costs st)) of
                     Inl e \<Rightarrow> Inl e
                   | Inr on_costs \<Rightarrow>
                       (case (if m = 0
                              then add_to_last (off_net_costs st)
                                     (upfront_hardware_cost_off_net (params self))
                              else Inr (off_net_costs st)) of
                          Inl e \<Rightarrow> Inl e
                        | Inr off_costs \<Rightarrow>
                            Inr \<lparr>on_net_costs = on_costs @ [on_net_total_cost],
                                 off_net_costs = off_costs @ [off_net_total_cost],
                                 sent_requests = sent_requests st @ [daily_requests],
                                 sent_data_gb = sent_data_gb st @ [daily_data_volume],
                                 active_users = active_users st @ [daily_users],
                                 bandwidth_gbps = bandwidth\<rparr>))))"

text \<open>The loop over \<open>range(T_days)\<close>: it stops at the first error.\<close>

fun day_loop ::
  "OffNetSimulator \<Rightarrow> bool \<Rightarrow> fval \<Rightarrow> int \<Rightarrow> nat list \<Rightarrow> loop_state \<Rightarrow> py_error + loop_state"
where
  "day_loop self compute_aws gb lcd [] st = Inr st"
| "day_loop self compute_aws gb lcd (day # days) st =
     (case loop_body self compute_aws gb lcd day st of
        Inl e \<Rightarrow> Inl e
      | Inr st' \<Rightarrow> day_loop self compute_aws gb lcd days st')"

text \<open>\<open>pd.DataFrame\<close> of a dictionary of columns: the columns must have one length.\<close>

definition pd_DataFrame ::
  "nat list \<Rightarrow> fval list \<Rightarrow> fval list \<Rightarrow> fval list \<Rightarrow> fval list \<Rightarrow> fval list
   \<Rightarrow> py_error + DataFrame"
where
  "pd_DataFrame d on off reqs vol users =
     (if length on = length d \<and> length off = length d \<and> length reqs = length d
         \<and> length vol = length d \<and> length users = length d
      then Inr \<lparr>Day = d, On_Net_Cost = on, Off_Net_Cost = off, Sent_Requests = reqs,
                 Sent_Data_Volume_GB = vol, Active_Users = users\<rparr>
      else Inl ValueError)"

text \<open>The state before the first day: the cost lists hold the upfront hardware costs.\<close>

definition initial_state :: "OffNetSimulator \<Rightarrow> loop_state" where
  "initial_state self =
     \<lparr>on_net_costs = [upfront_hardware_cost_on_net (params self)],
      off_net_costs = [upfront_hardware_cost_off_net (params self)],
      sent_requests = [], sent_data_gb = [], active_users = [],
      bandwidth_gbps = Fin 0\<rparr>"

text \<open>What follows the loop: the timeline, the two totals and the recommendation.\<close>

definition summarize ::
  "OffNetSimulator \<Rightarrow> bool \<Rightarrow> loop_state \<Rightarrow> py_error + SimulationResults"
where
  "summarize self compute_aws st =
     (let T_days = time_horizon_days (params self)
      in case pd_DataFrame (py_range1 T_days)
                (cumsum (py_slice_to (on_net_costs st) T_days))
                (cumsum (py_slice_to (off_net_costs st) T_days))
                (sent_requests st) (sent_data_gb st) (active_users st) of
           Inl e \<Rightarrow> Inl e
         | Inr df \<Rightarrow>
             (case iloc_last (On_Net_Cost df) of
                Inl e \<Rightarrow> Inl e
              | Inr total_on_net \<Rightarrow>
                  (case iloc_last (Off_Net_Cost df) of
                     Inl e \<Rightarrow> Inl e
                   | Inr total_off_net \<Rightarrow>
                       (let transfer_link_cost =
                              (if compute_aws
                               then bandwidth_gbps st * transfer_link_cost_per_gbps (params self)
                               else Fin 0);
                            recommendation =
                              (if compute_aws
                               then BandwidthReport (bandwidth_gbps st) transfer_link_cost
                               else if total_off_net < total_on_net
                               then Sentence ''Off-net solution is more cost-effective.''
                               else Sentence ''On-net solution is more cost-effective.'')
                        in Inr \<lparr>timeline = df,
                                final_recommendation = recommendation,
                                aws_transfer_link_cost = transfer_link_cost,
                                required_bandwidth_gbps = bandwidth_gbps st\<rparr>))))"

definition run_simulation :: "OffNetSimulator \<Rightarrow> bool \<Rightarrow> py_error + SimulationResults" where
  "run_simulation self compute_aws =
     (let T_days = time_horizon_days (params self);
          avg_request_size_gb = avg_request_size_kb (params self) / Fin 1048576;
          hardware_life_cycle_days = hardware_life_cycle_years (params self) * 365
      in case day_loop self compute_aws avg_request_size_gb hardware_life_cycle_days
                (py_range T_days) (initial_state self) of
           Inl e \<Rightarrow> Inl e
         | Inr st \<Rightarrow> summarize self compute_aws st)"

section \<open>Closed forms of the loop\<close>

text \<open>
  The quantities of one loop iteration, named so that the statements below can speak of
  them. The argument \<open>day\<close> is the loop variable, which starts at \<open>0\<close>: the
  iteration for \<open>day\<close> produces the timeline row numbered \<open>day + 1\<close>.
\<close>

definition daily_row :: "OffNetSimulator \<Rightarrow> nat \<Rightarrow> traffic_row" where
  "daily_row self day = user_data self ! (day mod length (user_data self))"

definition daily_volume :: "OffNetSimulator \<Rightarrow> nat \<Rightarrow> fval" where
  "daily_volume self day =
     num_requests (daily_row self day) * (avg_request_size_kb (params self) / Fin 1048576)"

definition on_net_daily_cost :: "OffNetSimulator \<Rightarrow> bool \<Rightarrow> nat \<Rightarrow> fval" where
  "on_net_daily_cost self compute_aws day =
     (if compute_aws
      then hardware_cost_on_net_per_month (params self) / Fin 30
           + snd (compute_aws_bandwidth self)
      else daily_volume self day * on_net_bandwidth_cost_per_gb (params self)
           + hardware_cost_on_net_per_month (params self) / Fin 30)"

definition off_net_daily_cost :: "OffNetSimulator \<Rightarrow> nat \<Rightarrow> fval" where
  "off_net_daily_cost self day =
     daily_volume self day * off_net_bandwidth_cost_per_gb (params self)
     + hardware_cost_off_net_per_month (params self) / Fin 30"

definition on_net_entry :: "OffNetSimulator \<Rightarrow> bool \<Rightarrow> nat \<Rightarrow> fval" where
  "on_net_entry self compute_aws j =
     (if j = 0 then upfront_hardware_cost_on_net (params self)
      else on_net_daily_cost self compute_aws (j - 1))"

definition off_net_entry :: "OffNetSimulator \<Rightarrow> nat \<Rightarrow> fval" where
  "off_net_entry self j =
     (if j = 0 then upfront_hardware_cost_off_net (params self)
      else off_net_daily_cost self (j - 1))"

definition refresh_due :: "OffNetSimulator \<Rightarrow> nat \<Rightarrow> bool" where
  "refresh_due self k = (int k mod (hardware_life_cycle_years (params self) * 365) = 0)"

definition on_net_charged :: "OffNetSimulator \<Rightarrow> bool \<Rightarrow> nat \<Rightarrow> fval" where
  "on_net_charged self compute_aws j =
     (if refresh_due self (Suc j)
      then on_net_entry self compute_aws j + upfront_hardware_cost_on_net (params self)
      else on_net_entry self compute_aws j)"

definition off_net_charged :: "OffNetSimulator \<Rightarrow> nat \<Rightarrow> fval" where
  "off_net_charged self j =
     (if refresh_due self (Suc j)
      then off_net_entry self j + upfront_hardware_cost_off_net (params self)
      else off_net_entry self j)"

definition state_after :: "OffNetSimulator \<Rightarrow> bool \<Rightarrow> nat \<Rightarrow> loop_state" where
  "state_after self compute_aws n =
     \<lparr>on_net_costs =
        map (on_net_charged self compute_aws) [0..<n]
        @ [on_net_entry self compute_aws n],
      off_net_costs =
        map (off_net_charged self) [0..<n]
        @ [off_net_entry self n],
      sent_requests = map (\<lambda>d. num_requests (daily_row self d)) [0..<n],
      sent_data_gb = map (daily_volume self) [0..<n],
      active_users = map (\<lambda>d. num_users (daily_row self d)) [0..<n],
      bandwidth_gbps =
        (if compute_aws \<and> 0 < n then fst (compute_aws_bandwidth self) else Fin 0)\<rparr>"

text \<open>The timeline of a run of \<open>n\<close> days.\<close>

definition timeline_of :: "OffNetSimulator \<Rightarrow> bool \<Rightarrow> nat \<Rightarrow> DataFrame" where
  "timeline_of self compute_aws n =
     \<lparr>Day = [1..<Suc n],
      On_Net_Cost = cumsum (map (on_net_charged self compute_aws) [0..<n]),
      Off_Net_Cost = cumsum (map (off_net_charged self) [0..<n]),
      Sent_Requests = map (\<lambda>d. num_requests (daily_row self d)) [0..<n],
      Sent_Data_Volume_GB = map (daily_volume self) [0..<n],
      Active_Users = map (\<lambda>d. num_users (daily_row self d)) [0..<n]\<rparr>"

section \<open>Scenarios\<close>

text \<open>
  Three days of traffic with a mean of 150 users, requests of 1024 KB, bandwidth at
  0.10 (on-net) and 0.05 (off-net) per GB, and no hardware cost.
\<close>

definition scenario_params :: SimulationParameters where
  "scenario_params =
     \<lparr>time_horizon_days = 3, avg_request_size_kb = Fin 1024, avg_num_users = 150,
      off_net_bandwidth_cost_per_gb = Fin (1 / 20), on_net_bandwidth_cost_per_gb = Fin (1 / 10),
      hardware_cost_off_net_per_month = Fin 0, hardware_cost_on_net_per_month = Fin 0,
      upfront_hardware_cost_off_net = Fin 0, upfront_hardware_cost_on_net = Fin 0,
      hardware_life_cycle_years = 5, transfer_link_cost_per_gbps = Fin 0,
      sla_percentage = Fin 0\<rparr>"

definition scenario_data :: dataset where
  "scenario_data =
     [\<lparr>num_users = Fin 100, num_requests = Fin 1000\<rparr>,
      \<lparr>num_users = Fin 200, num_requests = Fin 2000\<rparr>,
      \<lparr>num_users = Fin 150, num_requests = Fin 1500\<rparr>]"

definition scenario :: OffNetSimulator where
  "scenario = \<lparr>params = scenario_params, user_data = scenario_data\<rparr>"

text \<open>The scenario with a horizon of zero days, of minus one day, and of a week.\<close>

definition zero_horizon :: OffNetSimulator where
  "zero_horizon = scenario\<lparr>params := scenario_params\<lparr>time_horizon_days := 0\<rparr>\<rparr>"

definition negative_horizon :: OffNetSimulator where
  "negative_horizon = scenario\<lparr>params := scenario_params\<lparr>time_horizon_days := - 1\<rparr>\<rparr>"

definition week_scenario :: OffNetSimulator where
  "week_scenario = scenario\<lparr>params := scenario_params\<lparr>time_horizon_days := 7\<rparr>\<rparr>"

text \<open>The timeline without rows.\<close>

definition empty_frame :: DataFrame where
  "empty_frame = \<lparr>Day = [], On_Net_Cost = [], Off_Net_Cost = [], Sent_Requests = [],
                   Sent_Data_Volume_GB = [], Active_Users = []\<rparr>"

text \<open>The four columns of the timeline that no branch on the compute mode writes.\<close>

definition shared_columns :: "SimulationResults \<Rightarrow> fval list \<times> fval list \<times> fval list \<times> fval list" where
  "shared_columns r =
     (Off_Net_Cost (timeline r), Sent_Requests (timeline r),
      Sent_Data_Volume_GB (timeline r), Active_Users (timeline r))"

text \<open>
  The days, counted from 1, of the first \<open>k\<close> days on which the hardware is bought again,
  and a scenario of 400 days with a life cycle of one year.
\<close>

definition refresh_days :: "OffNetSimulator \<Rightarrow> nat \<Rightarrow> nat list" where
  "refresh_days self k = filter (refresh_due self) [1..<Suc k]"

definition lifecycle_scenario :: OffNetSimulator where
  "lifecycle_scenario =
     scenario\<lparr>params := scenario_params\<lparr>time_horizon_days := 400,
       hardware_life_cycle_years := 1,
       upfront_hardware_cost_on_net := Fin 10000,
       upfront_hardware_cost_off_net := Fin 20000\<rparr>\<rparr>"

section \<open>The bandwidth requirement as the specification words it\<close>

text \<open>
  The specification converts the request size with \<open>avg_request_size_kb / 1,048,576\<close>
  only. This definition follows its words, to be compared with \<open>compute_aws_bandwidth\<close>.
\<close>

definition spec_required_bandwidth_gbps :: "OffNetSimulator \<Rightarrow> fval" where
  "spec_required_bandwidth_gbps self =
     pd_sum (map num_requests (user_data self)) / Fin 86400
     * (avg_request_size_kb (params self) / Fin 1048576)
     * (sla_percentage (params self) / Fin 100)"

text \<open>
  One request of one gigabyte per second, served in full: a dataset of one row that
  normalization leaves as it is.
\<close>

definition bandwidth_scenario :: OffNetSimulator where
  "bandwidth_scenario =
     \<lparr>params =
        \<lparr>time_horizon_days = 2, avg_request_size_kb = Fin 1048576, avg_num_users = 1,
         off_net_bandwidth_cost_per_gb = Fin (1 / 20), on_net_bandwidth_cost_per_gb = Fin 0,
         hardware_cost_off_net_per_month = Fin 0, hardware_cost_on_net_per_month = Fin 3000,
         upfront_hardware_cost_off_net = Fin 0, upfront_hardware_cost_on_net = Fin 0,
         hardware_life_cycle_years = 5, transfer_link_cost_per_gbps = Fin 1000,
         sla_percentage = Fin 100\<rparr>,
      user_data = [\<lparr>num_users = Fin 1, num_requests = Fin 86400\<rparr>]\<rparr>"

section \<open>The run with the bandwidth requirement evaluated once\<close>

text \<open>
  The specification evaluates the bandwidth requirement once, before the loop, and every
  day reuses the pair. \<open>loop_body_once\<close> is the iteration of AWS mode that takes the
  pair as an argument, and \<open>run_simulation_once\<close> the run that computes it before the
  loop.
\<close>

definition loop_body_once ::
  "OffNetSimulator \<Rightarrow> fval \<times> fval \<Rightarrow> fval \<Rightarrow> int \<Rightarrow> nat \<Rightarrow> loop_state \<Rightarrow> py_error + loop_state"
where
  "loop_body_once self bandwidth avg_request_size_gb hardware_life_cycle_days day st =
     (case py_mod (int day) (int (length (user_data self))) of
        Inl e \<Rightarrow> Inl e
      | Inr day_index \<Rightarrow>
          (let daily_users = num_users (user_data self ! nat day_index);
               daily_requests = num_requests (user_data self ! nat day_index);
               daily_data_volume = daily_requests * avg_request_size_gb;
               on_net_total_cost =
                 hardware_cost_on_net_per_month (params self) / Fin 30 + snd bandwidth;
               off_net_total_cost =
                 daily_data_volume * off_net_bandwidth_cost_per_gb (params self)
                 + hardware_cost_off_net_per_month (params self) / Fin 30
           in case py_mod (int day + 1) hardware_life_cycle_days of
                Inl e \<Rightarrow> Inl e
              | Inr m \<Rightarrow>
                  (case (if m = 0
                         then add_to_last (on_net_costs st)
                                (upfront_hardware_cost_on_net (params self))
                         else Inr (on_net_costs st)) of
                     Inl e \<Rightarrow> Inl e
                   | Inr on_costs \<Rightarrow>
                       (case (if m = 0
                              then add_to_last (off_net_costs st)
                                     (upfront_hardware_cost_off_net (params self))
                              else Inr (off_net_costs st)) of
                          Inl e \<Rightarrow> Inl e
                        | Inr off_costs \<Rightarrow>
                            Inr \<lparr>on_net_costs = on_costs @ [on_net_total_cost],
                                 off_net_costs = off_costs @ [off_net_total_cost],
                                 sent_requests = sent_requests st @ [daily_requests],
                                 sent_data_gb = sent_data_gb st @ [daily_data_volume],
                                 active_users = active_users st @ [daily_users],
                                 bandwidth_gbps = fst bandwidth\<rparr>))))"

fun day_loop_once ::
  "OffNetSimulator \<Rightarrow> fval \<times> fval \<Rightarrow> fval \<Rightarrow> int \<Rightarrow> nat list \<Rightarrow> loop_state \<Rightarrow> py_error + loop_state"
where
  "day_loop_once self bandwidth gb lcd [] st = Inr st"
| "day_loop_once self bandwidth gb lcd (day # days) st =
     (case loop_body_once self bandwidth gb lcd day st of
        Inl e \<Rightarrow> Inl e
      | Inr st' \<Rightarrow> day_loop_once self bandwidth gb lcd days st')"

definition run_simulation_once :: "OffNetSimulator \<Rightarrow> py_error + SimulationResults" where
  "run_simulation_once self =
     (let T_days = time_horizon_days (params self);
          avg_request_size_gb = avg_request_size_kb (params self) / Fin 1048576;
          hardware_life_cycle_days = hardware_life_cycle_years (params self) * 365;
          bandwidth = compute_aws_bandwidth self
      in case day_loop_once self bandwidth avg_request_size_gb hardware_life_cycle_days
                (py_range T_days) ((initial_state self)\<lparr>bandwidth_gbps := fst bandwidth\<rparr>) of
           Inl e \<Rightarrow> Inl e
         | Inr st \<Rightarrow> summarize self True st)"

section \<open>Cumulative costs and the recommendation as the specification words them\<close>

text \<open>
  The specification's running totals: seeded with the upfront hardware cost, and raised
  on every day \<open>d\<close> (from 0) by that day's cost, to which the upfront cost is added again
  when \<open>d + 1\<close> ends a life cycle. The argument \<open>k\<close> is the number of days summed, so
  the final cumulative cost of a run is the total for \<open>k = time_horizon_days\<close>. These
  definitions follow the specification, to be compared with the last row of the timeline.
\<close>

definition spec_cumulative_on_net :: "OffNetSimulator \<Rightarrow> bool \<Rightarrow> nat \<Rightarrow> fval" where
  "spec_cumulative_on_net self compute_aws k =
     upfront_hardware_cost_on_net (params self)
     + sum_list (map (\<lambda>d. if refresh_due self (Suc d)
                           then on_net_daily_cost self compute_aws d
                                + upfront_hardware_cost_on_net (params self)
                           else on_net_daily_cost self compute_aws d) [0..<k])"

definition spec_cumulative_off_net :: "OffNetSimulator \<Rightarrow> nat \<Rightarrow> fval" where
  "spec_cumulative_off_net self k =
     upfront_hardware_cost_off_net (params self)
     + sum_list (map (\<lambda>d. if refresh_due self (Suc d)
                           then off_net_daily_cost self d
                                + upfront_hardware_cost_off_net (params self)
                           else off_net_daily_cost self d) [0..<k])"

text \<open>The recommendation of Canvas mode, from those final cumulative costs.\<close>

definition spec_recommendation :: "OffNetSimulator \<Rightarrow> recommendation" where
  "spec_recommendation self =
     (let T = nat (time_horizon_days (params self))
      in if spec_cumulative_off_net self T < spec_cumulative_on_net self False T
         then Sentence ''Off-net solution is more cost-effective.''
         else Sentence ''On-net solution is more cost-effective.'')"

text \<open>
  The three-day scenario with an upfront off-net cost of 25/128, which off-net recovers
  only on the third day; and one day with equal upfront costs of 100.
\<close>

definition tipping_scenario :: OffNetSimulator where
  "tipping_scenario =
     scenario\<lparr>params := scenario_params\<lparr>upfront_hardware_cost_off_net := Fin (25 / 128)\<rparr>\<rparr>"

definition one_day_scenario :: OffNetSimulator where
  "one_day_scenario =
     scenario\<lparr>params := scenario_params\<lparr>time_horizon_days := 1,
       upfront_hardware_cost_on_net := Fin 100,
       upfront_hardware_cost_off_net := Fin 100\<rparr>\<rparr>"

section \<open>Datasets for normalization\<close>

text \<open>
  The scenario with a target of 300 users, twice the mean of its dataset; the scenario
  without any row; and the scenario with one row of no users.
\<close>

definition doubling_scenario :: OffNetSimulator where
  "doubling_scenario = scenario\<lparr>params := scenario_params\<lparr>avg_num_users := 300\<rparr>\<rparr>"

definition empty_dataset :: OffNetSimulator where
  "empty_dataset = scenario\<lparr>user_data := []\<rparr>"

definition idle_dataset :: OffNetSimulator where
  "idle_dataset = scenario\<lparr>user_data := [\<lparr>num_users = Fin 0, num_requests = Fin 10\<rparr>]\<rparr>"

section \<open>The day loop\<close>

lemma day_loop_append:
  "day_loop self a gb lcd (xs @ ys) st =
     (case day_loop self a gb lcd xs st of Inl e \<Rightarrow> Inl e
      | Inr st' \<Rightarrow> day_loop self a gb lcd ys st')"
  by (induction xs arbitrary: st) (simp_all split: sum.splits)

lemma state_after_0: "state_after self a 0 = initial_state self"
  by (simp add: state_after_def initial_state_def on_net_entry_def off_net_entry_def)

lemma loop_body_state_after:
  assumes "user_data self \<noteq> []" and "hardware_life_cycle_years (params self) \<noteq> 0"
  shows "loop_body self a (avg_request_size_kb (params self) / Fin 1048576)
           (hardware_life_cycle_years (params self) * 365) n (state_after self a n)
         = Inr (state_after self a (Suc n))"
  using assms
  by (simp add: loop_body_def py_mod_def add_to_last_def state_after_def Let_def
      refresh_due_def on_net_charged_def off_net_charged_def on_net_entry_def off_net_entry_def on_net_daily_cost_def
      off_net_daily_cost_def daily_volume_def daily_row_def zmod_int [symmetric]
      add.commute [of 1] del: of_nat_mod)

lemma day_loop_state_after:
  assumes "user_data self \<noteq> []" and "hardware_life_cycle_years (params self) \<noteq> 0"
  shows "day_loop self a (avg_request_size_kb (params self) / Fin 1048576)
           (hardware_life_cycle_years (params self) * 365) [0..<n] (initial_state self)
         = Inr (state_after self a n)"
proof (induction n)
  case 0
  show ?case by (simp add: state_after_0)
next
  case (Suc n)
  then show ?case
    by (simp add: day_loop_append loop_body_state_after [OF assms])
qed


section \<open>The timeline\<close>

lemma length_cumsum_from [simp]: "length (cumsum_from a xs) = length xs"
  by (induction xs arbitrary: a) simp_all

lemma length_cumsum [simp]: "length (cumsum xs) = length xs"
  by (cases xs) simp_all

lemma cumsum_eq_Nil [simp]: "cumsum xs = [] \<longleftrightarrow> xs = []"
  by (cases xs) simp_all

lemma cumsum_from_nth:
  "k < length xs \<Longrightarrow> cumsum_from a xs ! k = a + sum_list (take (Suc k) xs)"
proof (induction xs arbitrary: a k)
  case Nil
  then show ?case by simp
next
  case (Cons x xs)
  show ?case
  proof (cases k)
    case 0
    then show ?thesis by simp
  next
    case (Suc m)
    with Cons show ?thesis by (simp add: add.assoc)
  qed
qed

lemma cumsum_nth: "k < length xs \<Longrightarrow> cumsum xs ! k = sum_list (take (Suc k) xs)"
proof (cases xs)
  case Nil
  then show "k < length xs \<Longrightarrow> ?thesis" by simp
next
  case (Cons x ys)
  assume "k < length xs"
  with Cons show ?thesis
    by (cases k) (simp_all add: cumsum_from_nth)
qed

lemma run_simulation_loop:
  assumes "user_data self \<noteq> []" and "hardware_life_cycle_years (params self) \<noteq> 0"
  shows "run_simulation self a
         = summarize self a (state_after self a (nat (time_horizon_days (params self))))"
  by (simp add: run_simulation_def Let_def py_range_def day_loop_state_after [OF assms])

lemma summarize_state_after:
  assumes "1 \<le> time_horizon_days (params self)"
  shows "summarize self a (state_after self a (nat (time_horizon_days (params self))))
         = Inr \<lparr>timeline = timeline_of self a (nat (time_horizon_days (params self))),
                final_recommendation =
                  (if a then BandwidthReport (fst (compute_aws_bandwidth self))
                              (fst (compute_aws_bandwidth self)
                               * transfer_link_cost_per_gbps (params self))
                   else if last (Off_Net_Cost (timeline_of self a (nat (time_horizon_days (params self)))))
                           < last (On_Net_Cost (timeline_of self a (nat (time_horizon_days (params self)))))
                   then Sentence ''Off-net solution is more cost-effective.''
                   else Sentence ''On-net solution is more cost-effective.''),
                aws_transfer_link_cost =
                  (if a then fst (compute_aws_bandwidth self)
                             * transfer_link_cost_per_gbps (params self)
                   else Fin 0),
                required_bandwidth_gbps =
                  (if a then fst (compute_aws_bandwidth self) else Fin 0)\<rparr>"
proof -
  let ?T = "time_horizon_days (params self)"
  obtain n where n: "nat ?T = Suc n"
    using assms by (cases "nat ?T") simp_all
  have n1: "nat (?T + 1) = Suc (Suc n)"
    using n by linarith
  have pos: "\<not> ?T < 0"
    using assms by simp
  show ?thesis
    by (simp add: n n1 pos summarize_def state_after_def timeline_of_def pd_DataFrame_def
        py_range1_def py_slice_to_def iloc_last_def Let_def del: upt_Suc)
qed


text \<open>Unfolding these evaluates a run on concrete data.\<close>

lemmas run_defs = run_simulation_def summarize_def loop_body_def py_mod_def py_range_def
  py_range1_def py_slice_to_def add_to_last_def iloc_last_def pd_DataFrame_def
  initial_state_def compute_aws_bandwidth_def pd_sum_def Let_def zero_fval_def

lemmas scenario_defs = scenario_def scenario_params_def scenario_data_def

lemma run_scenario_canvas:
  "run_simulation scenario False =
     Inr \<lparr>timeline =
            \<lparr>Day = [1, 2, 3],
             On_Net_Cost = [Fin 0, Fin (25 / 256), Fin (75 / 256)],
             Off_Net_Cost = [Fin 0, Fin (25 / 512), Fin (75 / 512)],
             Sent_Requests = [Fin 1000, Fin 2000, Fin 1500],
             Sent_Data_Volume_GB = [Fin (125 / 128), Fin (125 / 64), Fin (375 / 256)],
             Active_Users = [Fin 100, Fin 200, Fin 150]\<rparr>,
           final_recommendation = Sentence ''Off-net solution is more cost-effective.'',
           aws_transfer_link_cost = Fin 0, required_bandwidth_gbps = Fin 0\<rparr>"
  by (simp add: run_defs scenario_defs upt_rec numeral_nat)

section \<open>The recommendation\<close>

lemma fval_less_irrefl: "\<not> (x::fval) < x"
  by (cases x) simp_all

text \<open>
  In Canvas mode the recommendation of a run names the off-net solution exactly when the
  last row of the timeline has an off-net cost strictly less than its on-net cost; in
  every other case, equal costs included, it names the on-net solution.
\<close>

lemma canvas_compares_last_rows:
  assumes "run_simulation self False = Inr r"
  shows "(final_recommendation r = Sentence ''Off-net solution is more cost-effective.''
            \<longleftrightarrow> last (Off_Net_Cost (timeline r)) < last (On_Net_Cost (timeline r)))
         \<and> (\<not> last (Off_Net_Cost (timeline r)) < last (On_Net_Cost (timeline r))
            \<longrightarrow> final_recommendation r = Sentence ''On-net solution is more cost-effective.'')
         \<and> (last (Off_Net_Cost (timeline r)) = last (On_Net_Cost (timeline r))
            \<longrightarrow> final_recommendation r = Sentence ''On-net solution is more cost-effective.'')"
proof -
  have "final_recommendation r =
          (if last (Off_Net_Cost (timeline r)) < last (On_Net_Cost (timeline r))
           then Sentence ''Off-net solution is more cost-effective.''
           else Sentence ''On-net solution is more cost-effective.'')"
    using assms
    by (auto simp add: run_simulation_def summarize_def iloc_last_def Let_def
        split: sum.splits if_splits)
  then show ?thesis
    by (simp add: fval_less_irrefl)
qed

lemma canvas_compares_last_rows_scenario:
  "\<exists>r. run_simulation scenario False = Inr r
       \<and> last (Off_Net_Cost (timeline r)) < last (On_Net_Cost (timeline r))
       \<and> final_recommendation r = Sentence ''Off-net solution is more cost-effective.''"
  using canvas_compares_last_rows [OF run_scenario_canvas]
  by (simp add: run_scenario_canvas)

section \<open>Runs that return and runs that raise\<close>

lemma run_simulation_ok:
  assumes "1 \<le> time_horizon_days (params self)" and "user_data self \<noteq> []"
    and "hardware_life_cycle_years (params self) \<noteq> 0"
  shows "\<exists>r. run_simulation self a = Inr r
           \<and> timeline r = timeline_of self a (nat (time_horizon_days (params self)))
           \<and> required_bandwidth_gbps r = (if a then fst (compute_aws_bandwidth self) else Fin 0)
           \<and> aws_transfer_link_cost r =
               (if a then fst (compute_aws_bandwidth self)
                          * transfer_link_cost_per_gbps (params self)
                else Fin 0)"
  by (simp add: run_simulation_loop [OF assms(2,3)] summarize_state_after [OF assms(1)])

lemma run_simulation_nonpositive:
  assumes "time_horizon_days (params self) \<le> 0"
  shows "run_simulation self a = Inl IndexError"
  using assms
  by (simp add: run_simulation_def summarize_def py_range_def py_range1_def py_slice_to_def
      pd_DataFrame_def iloc_last_def initial_state_def Let_def)

lemma py_range_pos:
  assumes "1 \<le> t"
  shows "py_range t = 0 # [1..<nat t]"
proof -
  have "0 < nat t" using assms by simp
  then show ?thesis
    by (simp add: py_range_def upt_conv_Cons)
qed

lemma run_simulation_empty_data:
  assumes "1 \<le> time_horizon_days (params self)" and "user_data self = []"
  shows "run_simulation self a = Inl ZeroDivisionError"
  by (simp add: run_simulation_def Let_def py_range_pos [OF assms(1)] loop_body_def
      py_mod_def assms(2))

lemma run_simulation_zero_cycle:
  assumes "1 \<le> time_horizon_days (params self)" and "user_data self \<noteq> []"
    and "hardware_life_cycle_years (params self) = 0"
  shows "run_simulation self a = Inl ZeroDivisionError"
  using assms(2)
  by (simp add: run_simulation_def Let_def py_range_pos [OF assms(1)] loop_body_def
      py_mod_def assms(3))

section \<open>A horizon of no days\<close>

text \<open>
  C8. For a horizon of zero or fewer days the run returns no result, but not through a
  check made before the loop: the loop over the empty range ends at once and leaves the
  initial state, the timeline is built and has no rows, and the read of its last row
  raises IndexError. This holds in both modes and for every dataset.
\<close>

theorem nonpositive_horizon:
  assumes "time_horizon_days (params self) \<le> 0"
  shows "day_loop self compute_aws (avg_request_size_kb (params self) / Fin 1048576)
           (hardware_life_cycle_years (params self) * 365)
           (py_range (time_horizon_days (params self))) (initial_state self)
         = Inr (initial_state self)
       \<and> pd_DataFrame (py_range1 (time_horizon_days (params self)))
           (cumsum (py_slice_to (on_net_costs (initial_state self))
                      (time_horizon_days (params self))))
           (cumsum (py_slice_to (off_net_costs (initial_state self))
                      (time_horizon_days (params self))))
           (sent_requests (initial_state self)) (sent_data_gb (initial_state self))
           (active_users (initial_state self))
         = Inr empty_frame
       \<and> run_simulation self compute_aws = Inl IndexError"
  using assms
  by (simp add: run_simulation_nonpositive py_range_def py_range1_def py_slice_to_def
      pd_DataFrame_def initial_state_def empty_frame_def)

theorem nonpositive_horizon_witness:
  "time_horizon_days (params negative_horizon) \<le> 0
   \<and> run_simulation negative_horizon True = Inl IndexError
   \<and> run_simulation negative_horizon False = Inl IndexError"
  using nonpositive_horizon [of negative_horizon True]
    nonpositive_horizon [of negative_horizon False]
  by (simp add: negative_horizon_def scenario_defs)

theorem zero_horizon_counterexample:
  "day_loop zero_horizon False (avg_request_size_kb (params zero_horizon) / Fin 1048576)
     (hardware_life_cycle_years (params zero_horizon) * 365)
     (py_range (time_horizon_days (params zero_horizon))) (initial_state zero_horizon)
   = Inr (initial_state zero_horizon)
   \<and> summarize zero_horizon False (initial_state zero_horizon) = Inl IndexError
   \<and> run_simulation zero_horizon False = Inl IndexError"
  by (simp add: run_defs zero_horizon_def scenario_defs)

section \<open>Cyclic replay of the dataset\<close>

text \<open>
  C5. Row \<open>i\<close> of the dataset is the row read on the days
  \<open>i + 1\<close>, \<open>i + 1 + N\<close>, \<open>i + 1 + 2 N\<close>, ... that lie within the
  horizon, where \<open>N\<close> is the length of the dataset: the run returns, and the entries
  Sent Requests and Active Users of each of those rows of the timeline are the
  \<open>num_requests\<close> and \<open>num_users\<close> of row \<open>i\<close>, hence equal to each other.
\<close>

theorem cyclic_replay:
  assumes "hardware_life_cycle_years (params self) \<noteq> 0"
    and "i < length (user_data self)"
    and "i + j * length (user_data self) < nat (time_horizon_days (params self))"
  shows "\<exists>r. run_simulation self compute_aws = Inr r
           \<and> Day (timeline r) ! (i + j * length (user_data self))
               = i + 1 + j * length (user_data self)
           \<and> Sent_Requests (timeline r) ! (i + j * length (user_data self))
               = num_requests (user_data self ! i)
           \<and> Active_Users (timeline r) ! (i + j * length (user_data self))
               = num_users (user_data self ! i)"
proof -
  have T: "1 \<le> time_horizon_days (params self)"
    using assms(3) by linarith
  have ne: "user_data self \<noteq> []"
    using assms(2) by auto
  obtain r where r: "run_simulation self compute_aws = Inr r"
    and tl: "timeline r = timeline_of self compute_aws (nat (time_horizon_days (params self)))"
    using run_simulation_ok [OF T ne assms(1)] by blast
  show ?thesis
    using assms(2,3) by (simp add: r tl timeline_of_def daily_row_def nth_upt del: upt_Suc)
qed

theorem cyclic_replay_witness:
  "\<exists>r. run_simulation week_scenario False = Inr r
       \<and> Day (timeline r) ! 6 = 7
       \<and> Sent_Requests (timeline r) ! 6 = Fin 1000
       \<and> Active_Users (timeline r) ! 6 = Fin 100"
  using cyclic_replay [of week_scenario 0 2 False]
  by (simp add: week_scenario_def scenario_defs)

section \<open>Columns that do not depend on the mode\<close>

text \<open>
  C10. For every simulator, the runs in AWS mode and in Canvas mode either raise the
  same error or return timelines with the same columns Off-Net Cost, Sent Requests,
  Sent Data Volume (GB) and Active Users.
\<close>

theorem mode_independent_columns:
  "map_sum id shared_columns (run_simulation self True)
   = map_sum id shared_columns (run_simulation self False)"
proof (cases "1 \<le> time_horizon_days (params self)")
  case False
  then have "time_horizon_days (params self) \<le> 0" by simp
  then show ?thesis by (simp add: run_simulation_nonpositive)
next
  case T: True
  show ?thesis
  proof (cases "user_data self = []")
    case True
    then show ?thesis by (simp add: run_simulation_empty_data [OF T])
  next
    case ne: False
    show ?thesis
    proof (cases "hardware_life_cycle_years (params self) = 0")
      case True
      then show ?thesis by (simp add: run_simulation_zero_cycle [OF T ne])
    next
      case False
      obtain r1 where r1: "run_simulation self True = Inr r1"
        and t1: "timeline r1 = timeline_of self True (nat (time_horizon_days (params self)))"
        using run_simulation_ok [OF T ne False] by blast
      obtain r2 where r2: "run_simulation self False = Inr r2"
        and t2: "timeline r2 = timeline_of self False (nat (time_horizon_days (params self)))"
        using run_simulation_ok [OF T ne False] by blast
      show ?thesis
        by (simp add: r1 r2 t1 t2 shared_columns_def timeline_of_def)
    qed
  qed
qed

section \<open>Cumulative costs\<close>

text \<open>
  C1. On the three-day scenario (no upfront cost, Canvas mode) the daily on-net costs
  are 25/256, 25/128 and 75/512, so the cumulative cost of day 3, day 3 included, is
  225/512, and that of day 1 is 25/256. The timeline holds 0 for day 1 and 75/256 for
  day 3: each row stops one day short, and the cost of the last day, which the loop
  computed and appended, is cut off by the slice \<open>[:T_days]\<close>.
\<close>

theorem last_day_cost_dropped:
  "(\<exists>r. run_simulation scenario False = Inr r
        \<and> On_Net_Cost (timeline r) = [Fin 0, Fin (25 / 256), Fin (75 / 256)]
        \<and> Off_Net_Cost (timeline r) = [Fin 0, Fin (25 / 512), Fin (75 / 512)])
   \<and> map (on_net_daily_cost scenario False) [0, 1, 2]
       = [Fin (25 / 256), Fin (25 / 128), Fin (75 / 512)]
   \<and> map (off_net_daily_cost scenario) [0, 1, 2]
       = [Fin (25 / 512), Fin (25 / 256), Fin (75 / 1024)]
   \<and> upfront_hardware_cost_on_net (params scenario)
       + sum_list (map (on_net_daily_cost scenario False) [0, 1, 2]) = Fin (225 / 512)
   \<and> upfront_hardware_cost_off_net (params scenario)
       + sum_list (map (off_net_daily_cost scenario) [0, 1, 2]) = Fin (225 / 1024)"
proof -
  have run: "\<exists>r. run_simulation scenario False = Inr r
          \<and> On_Net_Cost (timeline r) = [Fin 0, Fin (25 / 256), Fin (75 / 256)]
          \<and> Off_Net_Cost (timeline r) = [Fin 0, Fin (25 / 512), Fin (75 / 512)]"
    by (simp add: run_scenario_canvas)
  have on: "on_net_daily_cost scenario False 0 = Fin (25 / 256)"
    "on_net_daily_cost scenario False (Suc 0) = Fin (25 / 128)"
    "on_net_daily_cost scenario False 2 = Fin (75 / 512)"
    by (simp_all add: on_net_daily_cost_def daily_volume_def daily_row_def scenario_defs)
  have off: "off_net_daily_cost scenario 0 = Fin (25 / 512)"
    "off_net_daily_cost scenario (Suc 0) = Fin (25 / 256)"
    "off_net_daily_cost scenario 2 = Fin (75 / 1024)"
    by (simp_all add: off_net_daily_cost_def daily_volume_def daily_row_def scenario_defs)
  have up: "upfront_hardware_cost_on_net (params scenario) = Fin 0"
    "upfront_hardware_cost_off_net (params scenario) = Fin 0"
    by (simp_all add: scenario_defs)
  show ?thesis
    using run by (simp add: on off up zero_fval_def)
qed

section \<open>Hardware refresh at the end of a life cycle\<close>

lemma sum_list_if_filter:
  "sum_list (map (\<lambda>j. if P j then c else (0::fval)) xs)
   = sum_list (map (\<lambda>_. c) (filter P xs))"
  by (induction xs) simp_all

lemma filter_eq_upt:
  "filter (\<lambda>j. j = a) [m..<n] = (if m \<le> a \<and> a < n then [a] else [])"
  by (induction n) auto

lemma sum_on_net_charged:
  "sum_list (map (on_net_charged self a) [0..<k])
   = sum_list (map (on_net_entry self a) [0..<k])
     + sum_list (map (\<lambda>_. upfront_hardware_cost_on_net (params self)) (refresh_days self k))"
proof -
  have "on_net_charged self a
        = (\<lambda>j. on_net_entry self a j
                + (if refresh_due self (Suc j)
                   then upfront_hardware_cost_on_net (params self) else 0))"
    by (rule ext) (simp add: on_net_charged_def)
  then have "sum_list (map (on_net_charged self a) [0..<k])
        = sum_list (map (on_net_entry self a) [0..<k])
          + sum_list (map (\<lambda>j. if refresh_due self j
                                 then upfront_hardware_cost_on_net (params self) else 0)
                        (map Suc [0..<k]))"
    by (simp add: sum_list_addf comp_def del: upt_Suc)
  then show ?thesis
    by (simp add: sum_list_if_filter refresh_days_def map_Suc_upt del: upt_Suc)
qed

lemma sum_off_net_charged:
  "sum_list (map (off_net_charged self) [0..<k])
   = sum_list (map (off_net_entry self) [0..<k])
     + sum_list (map (\<lambda>_. upfront_hardware_cost_off_net (params self)) (refresh_days self k))"
proof -
  have "off_net_charged self
        = (\<lambda>j. off_net_entry self j
                + (if refresh_due self (Suc j)
                   then upfront_hardware_cost_off_net (params self) else 0))"
    by (rule ext) (simp add: off_net_charged_def)
  then have "sum_list (map (off_net_charged self) [0..<k])
        = sum_list (map (off_net_entry self) [0..<k])
          + sum_list (map (\<lambda>j. if refresh_due self j
                                 then upfront_hardware_cost_off_net (params self) else 0)
                        (map Suc [0..<k]))"
    by (simp add: sum_list_addf comp_def del: upt_Suc)
  then show ?thesis
    by (simp add: sum_list_if_filter refresh_days_def map_Suc_upt del: upt_Suc)
qed

lemma timeline_of_costs:
  assumes "1 \<le> k" and "k \<le> n"
  shows "On_Net_Cost (timeline_of self a n) ! (k - 1)
           = sum_list (map (on_net_entry self a) [0..<k])
             + sum_list (map (\<lambda>_. upfront_hardware_cost_on_net (params self))
                           (refresh_days self k))"
    and "Off_Net_Cost (timeline_of self a n) ! (k - 1)
           = sum_list (map (off_net_entry self) [0..<k])
             + sum_list (map (\<lambda>_. upfront_hardware_cost_off_net (params self))
                           (refresh_days self k))"
proof -
  have k: "Suc (k - 1) = k" "k - 1 < n"
    using assms by simp_all
  have tk: "take k [0..<n] = [0..<k]"
    using assms(2) by (simp add: take_upt)
  show "On_Net_Cost (timeline_of self a n) ! (k - 1)
           = sum_list (map (on_net_entry self a) [0..<k])
             + sum_list (map (\<lambda>_. upfront_hardware_cost_on_net (params self))
                           (refresh_days self k))"
    using k by (simp add: timeline_of_def cumsum_nth take_map tk sum_on_net_charged
        del: upt_Suc)
  show "Off_Net_Cost (timeline_of self a n) ! (k - 1)
           = sum_list (map (off_net_entry self) [0..<k])
             + sum_list (map (\<lambda>_. upfront_hardware_cost_off_net (params self))
                           (refresh_days self k))"
    using k by (simp add: timeline_of_def cumsum_nth take_map tk sum_off_net_charged
        del: upt_Suc)
qed

lemma refresh_days_one_year:
  assumes "hardware_life_cycle_years (params self) = 1" and "k \<le> 400"
  shows "refresh_days self k = (if 365 \<le> k then [365] else [])"
proof -
  have "filter (refresh_due self) [1..<Suc k] = filter (\<lambda>j. j = 365) [1..<Suc k]"
  proof (rule filter_cong [OF refl])
    fix j assume "j \<in> set [1..<Suc k]"
    then have "1 \<le> j" "j \<le> 400" using assms(2) by auto
    then show "refresh_due self j = (j = 365)"
      unfolding refresh_due_def assms(1) by presburger
  qed
  then show ?thesis
    by (simp add: refresh_days_def filter_eq_upt del: upt_Suc)
qed

lemma refresh_days_short_horizon:
  assumes "int k < hardware_life_cycle_years (params self) * 365"
  shows "refresh_days self k = []"
proof -
  have "\<not> refresh_due self j" if "j \<in> set [1..<Suc k]" for j
  proof -
    have "0 < int j" "int j < hardware_life_cycle_years (params self) * 365"
      using that assms by auto
    then show ?thesis
      by (simp add: refresh_due_def)
  qed
  then show ?thesis
    by (simp add: refresh_days_def filter_empty_conv del: upt_Suc)
qed

text \<open>
  C4. In every run that returns, the loop of day \<open>d\<close> (counted from 0) adds the upfront
  hardware costs, on-net and off-net, exactly when
  \<open>(d + 1) mod (hardware_life_cycle_years * 365) = 0\<close>; it adds them to entry \<open>d\<close> of the
  cost lists, so that they enter the cumulative costs of the timeline at row Day \<open>d + 1\<close>:
  row Day \<open>k\<close> holds the entries \<open>0..k-1\<close> and one upfront cost for every refresh day up
  to \<open>k\<close>. With a life cycle of one year and a horizon of 400 days the only refresh day
  is day 365, and with a life cycle longer than the horizon there is none.
\<close>

theorem lifecycle_refresh:
  assumes "1 \<le> time_horizon_days (params self)" and "user_data self \<noteq> []"
    and "hardware_life_cycle_years (params self) \<noteq> 0"
  shows "(\<exists>st r.
            day_loop self compute_aws (avg_request_size_kb (params self) / Fin 1048576)
              (hardware_life_cycle_years (params self) * 365)
              (py_range (time_horizon_days (params self))) (initial_state self) = Inr st
          \<and> run_simulation self compute_aws = Inr r
          \<and> (\<forall>d. d < nat (time_horizon_days (params self)) \<longrightarrow>
                on_net_costs st ! d
                  = (if (int d + 1) mod (hardware_life_cycle_years (params self) * 365) = 0
                     then on_net_entry self compute_aws d
                          + upfront_hardware_cost_on_net (params self)
                     else on_net_entry self compute_aws d)
              \<and> off_net_costs st ! d
                  = (if (int d + 1) mod (hardware_life_cycle_years (params self) * 365) = 0
                     then off_net_entry self d
                          + upfront_hardware_cost_off_net (params self)
                     else off_net_entry self d))
          \<and> (\<forall>k. 1 \<le> k \<and> k \<le> nat (time_horizon_days (params self)) \<longrightarrow>
                On_Net_Cost (timeline r) ! (k - 1)
                  = sum_list (map (on_net_entry self compute_aws) [0..<k])
                    + sum_list (map (\<lambda>_. upfront_hardware_cost_on_net (params self))
                                  (refresh_days self k))
              \<and> Off_Net_Cost (timeline r) ! (k - 1)
                  = sum_list (map (off_net_entry self) [0..<k])
                    + sum_list (map (\<lambda>_. upfront_hardware_cost_off_net (params self))
                                  (refresh_days self k))))
       \<and> (hardware_life_cycle_years (params self) = 1
            \<and> time_horizon_days (params self) = 400 \<longrightarrow>
          (\<forall>k. 1 \<le> k \<and> k \<le> 400 \<longrightarrow>
             refresh_days self k = (if 365 \<le> k then [365] else [])))
       \<and> (time_horizon_days (params self) < hardware_life_cycle_years (params self) * 365
            \<longrightarrow>
          (\<forall>k. 1 \<le> k \<and> k \<le> nat (time_horizon_days (params self)) \<longrightarrow>
             refresh_days self k = []))"
proof -
  let ?n = "nat (time_horizon_days (params self))"
  obtain r where r: "run_simulation self compute_aws = Inr r"
    and tl: "timeline r = timeline_of self compute_aws ?n"
    using run_simulation_ok [OF assms] by blast
  have loop: "day_loop self compute_aws (avg_request_size_kb (params self) / Fin 1048576)
      (hardware_life_cycle_years (params self) * 365)
      (py_range (time_horizon_days (params self))) (initial_state self)
    = Inr (state_after self compute_aws ?n)"
    by (simp add: py_range_def day_loop_state_after [OF assms(2,3)])
  have entries: "on_net_costs (state_after self compute_aws ?n) ! d
        = (if (int d + 1) mod (hardware_life_cycle_years (params self) * 365) = 0
           then on_net_entry self compute_aws d + upfront_hardware_cost_on_net (params self)
           else on_net_entry self compute_aws d)
      \<and> off_net_costs (state_after self compute_aws ?n) ! d
        = (if (int d + 1) mod (hardware_life_cycle_years (params self) * 365) = 0
           then off_net_entry self d + upfront_hardware_cost_off_net (params self)
           else off_net_entry self d)" if "d < ?n" for d
    using that
    by (simp add: state_after_def nth_append on_net_charged_def off_net_charged_def
        refresh_due_def add.commute [of 1] del: upt_Suc)
  have rows: "On_Net_Cost (timeline r) ! (k - 1)
        = sum_list (map (on_net_entry self compute_aws) [0..<k])
          + sum_list (map (\<lambda>_. upfront_hardware_cost_on_net (params self))
                        (refresh_days self k))
      \<and> Off_Net_Cost (timeline r) ! (k - 1)
        = sum_list (map (off_net_entry self) [0..<k])
          + sum_list (map (\<lambda>_. upfront_hardware_cost_off_net (params self))
                        (refresh_days self k))" if "1 \<le> k \<and> k \<le> ?n" for k
    using that timeline_of_costs [of k ?n self compute_aws] by (simp add: tl)
  have year: "refresh_days self k = (if 365 \<le> k then [365] else [])"
    if "hardware_life_cycle_years (params self) = 1" and "k \<le> 400" for k
    using that by (rule refresh_days_one_year)
  have short: "refresh_days self k = []"
    if "time_horizon_days (params self) < hardware_life_cycle_years (params self) * 365"
      and "k \<le> ?n" for k
  proof (rule refresh_days_short_horizon)
    show "int k < hardware_life_cycle_years (params self) * 365"
      using that assms(1) by linarith
  qed
  show ?thesis
    using r loop entries rows year short by blast
qed

theorem lifecycle_refresh_witness:
  "\<exists>r. run_simulation lifecycle_scenario False = Inr r
       \<and> refresh_days lifecycle_scenario 364 = []
       \<and> refresh_days lifecycle_scenario 365 = [365]
       \<and> refresh_days lifecycle_scenario 400 = [365]
       \<and> On_Net_Cost (timeline r) ! 364
           = sum_list (map (on_net_entry lifecycle_scenario False) [0..<365]) + Fin 10000
       \<and> Off_Net_Cost (timeline r) ! 399
           = sum_list (map (off_net_entry lifecycle_scenario) [0..<400]) + Fin 20000"
proof -
  have h: "1 \<le> time_horizon_days (params lifecycle_scenario)"
    "user_data lifecycle_scenario \<noteq> []"
    "hardware_life_cycle_years (params lifecycle_scenario) \<noteq> 0"
    by (simp_all add: lifecycle_scenario_def scenario_defs)
  have p: "hardware_life_cycle_years (params lifecycle_scenario) = 1"
    "time_horizon_days (params lifecycle_scenario) = 400"
    "upfront_hardware_cost_on_net (params lifecycle_scenario) = Fin 10000"
    "upfront_hardware_cost_off_net (params lifecycle_scenario) = Fin 20000"
    by (simp_all add: lifecycle_scenario_def scenario_defs)
  from lifecycle_refresh [OF h, of False] obtain r where
    r: "run_simulation lifecycle_scenario False = Inr r"
    and rows: "\<And>k. 1 \<le> k \<and> k \<le> 400 \<Longrightarrow>
        On_Net_Cost (timeline r) ! (k - 1)
          = sum_list (map (on_net_entry lifecycle_scenario False) [0..<k])
            + sum_list (map (\<lambda>_. Fin 10000) (refresh_days lifecycle_scenario k))
        \<and> Off_Net_Cost (timeline r) ! (k - 1)
          = sum_list (map (off_net_entry lifecycle_scenario) [0..<k])
            + sum_list (map (\<lambda>_. Fin 20000) (refresh_days lifecycle_scenario k))"
    and days: "\<And>k. 1 \<le> k \<and> k \<le> 400 \<Longrightarrow>
        refresh_days lifecycle_scenario k = (if 365 \<le> k then [365] else [])"
    unfolding p by auto
  show ?thesis
    using r rows [of 365] rows [of 400] days [of 364] days [of 365] days [of 400]
    by (simp add: zero_fval_def)
qed

section \<open>The bandwidth requirement\<close>

lemma divide_1024_middle:
  "x * (y / Fin 1024) * z = (x * y * z) / Fin 1024"
  by (cases x; cases y; cases z; simp add: zero_less_mult_iff mult_less_0_iff)

lemma spec_bandwidth_over_1024:
  "fst (compute_aws_bandwidth self) = spec_required_bandwidth_gbps self / Fin 1024"
  by (simp add: compute_aws_bandwidth_def spec_required_bandwidth_gbps_def Let_def
      divide_1024_middle)

text \<open>
  What \<open>compute_aws_bandwidth\<close> returns. In AWS mode the required bandwidth is
  \<open>sum(num_requests) / 86400 * (avg_request_size_kb / 1,048,576 / 1024) * (sla_percentage / 100)\<close>:
  the request size is divided by 1024 once more than the specification says, so the
  value is the specification's divided by 1024. The daily cost of the transfer link is
  the bandwidth times \<open>transfer_link_cost_per_gbps\<close>, divided by 30; every iteration of
  the loop that succeeds appends the monthly on-net hardware cost over 30 plus that daily
  cost, and a run that returns reports that bandwidth and, as monthly cost, the bandwidth
  times \<open>transfer_link_cost_per_gbps\<close>.
\<close>

lemma aws_bandwidth_formula:
  "fst (compute_aws_bandwidth self)
     = pd_sum (map num_requests (user_data self)) / Fin 86400
       * (avg_request_size_kb (params self) / Fin 1048576 / Fin 1024)
       * (sla_percentage (params self) / Fin 100)
   \<and> fst (compute_aws_bandwidth self) = spec_required_bandwidth_gbps self / Fin 1024
   \<and> snd (compute_aws_bandwidth self)
     = fst (compute_aws_bandwidth self) * transfer_link_cost_per_gbps (params self) / Fin 30
   \<and> (\<forall>gb lcd day st st'.
         loop_body self True gb lcd day st = Inr st' \<longrightarrow>
           last (on_net_costs st')
             = hardware_cost_on_net_per_month (params self) / Fin 30
               + fst (compute_aws_bandwidth self) * transfer_link_cost_per_gbps (params self)
                 / Fin 30
           \<and> bandwidth_gbps st' = fst (compute_aws_bandwidth self))
   \<and> (1 \<le> time_horizon_days (params self) \<and> user_data self \<noteq> []
        \<and> hardware_life_cycle_years (params self) \<noteq> 0 \<longrightarrow>
       (\<exists>r. run_simulation self True = Inr r
          \<and> required_bandwidth_gbps r = fst (compute_aws_bandwidth self)
          \<and> aws_transfer_link_cost r
              = fst (compute_aws_bandwidth self) * transfer_link_cost_per_gbps (params self)))"
proof -
  have f: "fst (compute_aws_bandwidth self)
     = pd_sum (map num_requests (user_data self)) / Fin 86400
       * (avg_request_size_kb (params self) / Fin 1048576 / Fin 1024)
       * (sla_percentage (params self) / Fin 100)"
    by (simp add: compute_aws_bandwidth_def Let_def)
  have d: "snd (compute_aws_bandwidth self)
     = fst (compute_aws_bandwidth self) * transfer_link_cost_per_gbps (params self) / Fin 30"
    by (simp add: compute_aws_bandwidth_def Let_def)
  have l: "last (on_net_costs st')
             = hardware_cost_on_net_per_month (params self) / Fin 30
               + fst (compute_aws_bandwidth self) * transfer_link_cost_per_gbps (params self)
                 / Fin 30
           \<and> bandwidth_gbps st' = fst (compute_aws_bandwidth self)"
    if "loop_body self True gb lcd day st = Inr st'" for gb lcd day st st'
    using that unfolding d [symmetric]
    by (auto simp add: loop_body_def Let_def split: sum.splits if_splits)
  have r: "\<exists>r. run_simulation self True = Inr r
          \<and> required_bandwidth_gbps r = fst (compute_aws_bandwidth self)
          \<and> aws_transfer_link_cost r
              = fst (compute_aws_bandwidth self) * transfer_link_cost_per_gbps (params self)"
    if "1 \<le> time_horizon_days (params self)" "user_data self \<noteq> []"
      "hardware_life_cycle_years (params self) \<noteq> 0"
    using run_simulation_ok [OF that, of True] by auto
  show ?thesis
    using f d l r spec_bandwidth_over_1024 [of self] by blast
qed

lemma aws_bandwidth_formula_scenario:
  "\<exists>r st'. run_simulation bandwidth_scenario True = Inr r
     \<and> required_bandwidth_gbps r = Fin (1 / 1024)
     \<and> aws_transfer_link_cost r = Fin (125 / 128)
     \<and> loop_body bandwidth_scenario True (Fin 1) 1825 0 (initial_state bandwidth_scenario)
         = Inr st'
     \<and> last (on_net_costs st') = Fin (100 + 25 / 768)
     \<and> bandwidth_gbps st' = Fin (1 / 1024)"
proof -
  have c: "pd_sum (map num_requests (user_data bandwidth_scenario)) / Fin 86400
       * (avg_request_size_kb (params bandwidth_scenario) / Fin 1048576 / Fin 1024)
       * (sla_percentage (params bandwidth_scenario) / Fin 100) = Fin (1 / 1024)"
    by (simp add: bandwidth_scenario_def pd_sum_def zero_fval_def)
  have p: "transfer_link_cost_per_gbps (params bandwidth_scenario) = Fin 1000"
    "hardware_cost_on_net_per_month (params bandwidth_scenario) = Fin 3000"
    by (simp_all add: bandwidth_scenario_def)
  have h: "1 \<le> time_horizon_days (params bandwidth_scenario)
      \<and> user_data bandwidth_scenario \<noteq> []
      \<and> hardware_life_cycle_years (params bandwidth_scenario) \<noteq> 0"
    by (simp add: bandwidth_scenario_def)
  obtain st' where b: "loop_body bandwidth_scenario True (Fin 1) 1825 0
      (initial_state bandwidth_scenario) = Inr st'"
    by (simp add: loop_body_def py_mod_def Let_def bandwidth_scenario_def)
  note t = aws_bandwidth_formula [of bandwidth_scenario, unfolded c p]
  from t h obtain r where
    "run_simulation bandwidth_scenario True = Inr r"
    "required_bandwidth_gbps r = Fin (1 / 1024)"
    "aws_transfer_link_cost r = Fin (125 / 128)"
    by auto
  moreover from t b have "last (on_net_costs st') = Fin (100 + 25 / 768)
     \<and> bandwidth_gbps st' = Fin (1 / 1024)"
    by auto
  ultimately show ?thesis
    using b by blast
qed

text \<open>
  C2. The required bandwidth is the request rate times the request size in GB
  (\<open>avg_request_size_kb / 1,048,576\<close>) times \<open>sla_percentage / 100\<close>. For one request of
  1,048,576 KB per second, served in full, on a dataset that normalization leaves as it
  is, that is 1; \<open>compute_aws_bandwidth\<close> returns 1/1024, and the run in AWS mode reports
  1/1024 and a monthly cost of the transfer link of 125/128 where the price of one Gbps
  is 1000: the request size is divided by 1024 once more than the conversion from KB to
  GB that \<open>run_simulation\<close> itself uses.
\<close>

theorem bandwidth_extra_division:
  "init (params bandwidth_scenario) (user_data bandwidth_scenario) = Inr bandwidth_scenario
   \<and> spec_required_bandwidth_gbps bandwidth_scenario = Fin 1
   \<and> fst (compute_aws_bandwidth bandwidth_scenario) = Fin (1 / 1024)
   \<and> (\<exists>r. run_simulation bandwidth_scenario True = Inr r
          \<and> required_bandwidth_gbps r = Fin (1 / 1024)
          \<and> required_bandwidth_gbps r \<noteq> spec_required_bandwidth_gbps bandwidth_scenario
          \<and> aws_transfer_link_cost r = Fin (125 / 128))"
proof -
  have n: "init (params bandwidth_scenario) (user_data bandwidth_scenario)
           = Inr bandwidth_scenario"
    by (simp add: init_def adjust_dataset_def pd_mean_def bandwidth_scenario_def Let_def)
  have s: "spec_required_bandwidth_gbps bandwidth_scenario = Fin 1"
    by (simp add: spec_required_bandwidth_gbps_def bandwidth_scenario_def pd_sum_def
        zero_fval_def)
  have c: "fst (compute_aws_bandwidth bandwidth_scenario) = Fin (1 / 1024)"
    by (simp add: compute_aws_bandwidth_def bandwidth_scenario_def pd_sum_def Let_def
        zero_fval_def)
  have p: "transfer_link_cost_per_gbps (params bandwidth_scenario) = Fin 1000"
    by (simp add: bandwidth_scenario_def)
  have h: "1 \<le> time_horizon_days (params bandwidth_scenario)"
    "user_data bandwidth_scenario \<noteq> []"
    "hardware_life_cycle_years (params bandwidth_scenario) \<noteq> 0"
    by (simp_all add: bandwidth_scenario_def)
  from run_simulation_ok [OF h, of True] obtain r where
    "run_simulation bandwidth_scenario True = Inr r"
    "required_bandwidth_gbps r = Fin (1 / 1024)"
    "aws_transfer_link_cost r = Fin (125 / 128)"
    by (auto simp add: c p)
  then show ?thesis
    using n s c by simp
qed

section \<open>Evaluating the bandwidth requirement once\<close>

lemma loop_body_once_eq:
  "loop_body self True gb lcd day st
   = loop_body_once self (compute_aws_bandwidth self) gb lcd day st"
  by (simp add: loop_body_def loop_body_once_def Let_def cong: sum.case_cong)

lemma day_loop_once_eq:
  "day_loop self True gb lcd days st
   = day_loop_once self (compute_aws_bandwidth self) gb lcd days st"
  by (induction days arbitrary: st) (simp_all add: loop_body_once_eq split: sum.splits)

lemma loop_body_aws_bandwidth:
  "loop_body self True gb lcd day (st\<lparr>bandwidth_gbps := b\<rparr>) = loop_body self True gb lcd day st"
  by (simp add: loop_body_def Let_def split: sum.splits)

lemma run_simulation_once_nonpositive:
  assumes "time_horizon_days (params self) \<le> 0"
  shows "run_simulation_once self = Inl IndexError"
  using assms
  by (simp add: run_simulation_once_def summarize_def py_range_def py_range1_def
      py_slice_to_def pd_DataFrame_def iloc_last_def initial_state_def Let_def)

text \<open>
  C9. In AWS mode every iteration of the loop, on any day and in any state, is the
  iteration that takes the pair of \<open>compute_aws_bandwidth\<close> computed beforehand, so the
  pair is the same on every day; and the run that recomputes it every day is the run
  that computes it once before the loop, errors included.
\<close>

theorem bandwidth_computed_once:
  "(\<forall>day st. loop_body self True (avg_request_size_kb (params self) / Fin 1048576)
                (hardware_life_cycle_years (params self) * 365) day st
              = loop_body_once self (compute_aws_bandwidth self)
                  (avg_request_size_kb (params self) / Fin 1048576)
                  (hardware_life_cycle_years (params self) * 365) day st)
   \<and> run_simulation self True = run_simulation_once self"
proof (cases "1 \<le> time_horizon_days (params self)")
  case False
  then have "time_horizon_days (params self) \<le> 0" by simp
  then show ?thesis
    by (simp add: run_simulation_nonpositive run_simulation_once_nonpositive
        loop_body_once_eq)
next
  case True
  show ?thesis
    by (simp add: run_simulation_def run_simulation_once_def Let_def py_range_pos [OF True]
        day_loop_once_eq loop_body_once_eq [symmetric] loop_body_aws_bandwidth)
qed

section \<open>The recommendation and the cost of the last day\<close>

lemmas tipping_defs = tipping_scenario_def one_day_scenario_def scenario_defs

text \<open>
  C6. In Canvas mode the recommendation is to name off-net exactly when the final
  cumulative off-net cost is strictly less than the final cumulative on-net cost. On the
  three-day scenario with an upfront off-net cost of 25/128 the final cumulative costs,
  day 3 included, are 425/1024 off-net and 450/1024 on-net, so off-net is to be named;
  the run compares the last rows of its timeline, 175/512 off-net and 75/256 on-net,
  which lack the cost of day 3, and names on-net. On one day with upfront costs of 100
  each, the run compares 100 with 100 and names on-net, although the day costs 25/512
  off-net and 25/256 on-net.
\<close>

theorem recommendation_ignores_last_day:
  "(\<exists>r. run_simulation tipping_scenario False = Inr r
        \<and> On_Net_Cost (timeline r) = [Fin 0, Fin (25 / 256), Fin (75 / 256)]
        \<and> Off_Net_Cost (timeline r) = [Fin (25 / 128), Fin (125 / 512), Fin (175 / 512)]
        \<and> final_recommendation r = Sentence ''On-net solution is more cost-effective.'')
   \<and> spec_cumulative_on_net tipping_scenario False 3 = Fin (450 / 1024)
   \<and> spec_cumulative_off_net tipping_scenario 3 = Fin (425 / 1024)
   \<and> spec_cumulative_off_net tipping_scenario 3 < spec_cumulative_on_net tipping_scenario False 3
   \<and> spec_recommendation tipping_scenario = Sentence ''Off-net solution is more cost-effective.''
   \<and> (\<exists>r. run_simulation one_day_scenario False = Inr r
        \<and> On_Net_Cost (timeline r) = [Fin 100]
        \<and> Off_Net_Cost (timeline r) = [Fin 100]
        \<and> final_recommendation r = Sentence ''On-net solution is more cost-effective.'')
   \<and> spec_cumulative_on_net one_day_scenario False 1 = Fin (100 + 25 / 256)
   \<and> spec_cumulative_off_net one_day_scenario 1 = Fin (100 + 25 / 512)
   \<and> spec_recommendation one_day_scenario = Sentence ''Off-net solution is more cost-effective.''"
proof -
  have run3: "\<exists>r. run_simulation tipping_scenario False = Inr r
        \<and> On_Net_Cost (timeline r) = [Fin 0, Fin (25 / 256), Fin (75 / 256)]
        \<and> Off_Net_Cost (timeline r) = [Fin (25 / 128), Fin (125 / 512), Fin (175 / 512)]
        \<and> final_recommendation r = Sentence ''On-net solution is more cost-effective.''"
    by (simp add: run_defs tipping_defs upt_rec numeral_nat)
  have run1: "\<exists>r. run_simulation one_day_scenario False = Inr r
        \<and> On_Net_Cost (timeline r) = [Fin 100]
        \<and> Off_Net_Cost (timeline r) = [Fin 100]
        \<and> final_recommendation r = Sentence ''On-net solution is more cost-effective.''"
    by (simp add: run_defs tipping_defs)
  have days: "[0..<3] = [0, Suc 0, 2]"
    by (simp add: upt_rec numeral_nat)
  have due3: "\<not> refresh_due tipping_scenario (Suc 0)"
    "\<not> refresh_due tipping_scenario (Suc (Suc 0))"
    "\<not> refresh_due tipping_scenario (Suc 2)"
    "\<not> refresh_due tipping_scenario 2" "\<not> refresh_due tipping_scenario 3"
    by (simp_all add: refresh_due_def tipping_defs)
  have due1: "\<not> refresh_due one_day_scenario (Suc 0)"
    by (simp add: refresh_due_def tipping_defs)
  have c3: "on_net_daily_cost tipping_scenario False 0 = Fin (25 / 256)"
    "on_net_daily_cost tipping_scenario False (Suc 0) = Fin (25 / 128)"
    "on_net_daily_cost tipping_scenario False 2 = Fin (75 / 512)"
    "off_net_daily_cost tipping_scenario 0 = Fin (25 / 512)"
    "off_net_daily_cost tipping_scenario (Suc 0) = Fin (25 / 256)"
    "off_net_daily_cost tipping_scenario 2 = Fin (75 / 1024)"
    by (simp_all add: on_net_daily_cost_def off_net_daily_cost_def daily_volume_def
        daily_row_def tipping_defs)
  have c1: "on_net_daily_cost one_day_scenario False 0 = Fin (25 / 256)"
    "off_net_daily_cost one_day_scenario 0 = Fin (25 / 512)"
    by (simp_all add: on_net_daily_cost_def off_net_daily_cost_def daily_volume_def
        daily_row_def tipping_defs)
  have u3: "upfront_hardware_cost_on_net (params tipping_scenario) = Fin 0"
    "upfront_hardware_cost_off_net (params tipping_scenario) = Fin (25 / 128)"
    "nat (time_horizon_days (params tipping_scenario)) = 3"
    by (simp_all add: tipping_defs)
  have u1: "upfront_hardware_cost_on_net (params one_day_scenario) = Fin 100"
    "upfront_hardware_cost_off_net (params one_day_scenario) = Fin 100"
    "nat (time_horizon_days (params one_day_scenario)) = 1"
    by (simp_all add: tipping_defs)
  have on3: "spec_cumulative_on_net tipping_scenario False 3 = Fin (450 / 1024)"
    by (simp add: spec_cumulative_on_net_def days due3 c3 u3 zero_fval_def)
  have off3: "spec_cumulative_off_net tipping_scenario 3 = Fin (425 / 1024)"
    by (simp add: spec_cumulative_off_net_def days due3 c3 u3 zero_fval_def)
  have on1: "spec_cumulative_on_net one_day_scenario False 1 = Fin (100 + 25 / 256)"
    by (simp add: spec_cumulative_on_net_def due1 c1 u1 zero_fval_def)
  have off1: "spec_cumulative_off_net one_day_scenario 1 = Fin (100 + 25 / 512)"
    by (simp add: spec_cumulative_off_net_def due1 c1 u1 zero_fval_def)
  have rec3: "spec_recommendation tipping_scenario
      = Sentence ''Off-net solution is more cost-effective.''"
    using on3 off3 by (simp add: spec_recommendation_def u3)
  have rec1: "spec_recommendation one_day_scenario
      = Sentence ''Off-net solution is more cost-effective.''"
    using on1 off1 by (simp add: spec_recommendation_def u1)
  have less3: "spec_cumulative_off_net tipping_scenario 3
      < spec_cumulative_on_net tipping_scenario False 3"
    by (simp add: on3 off3)
  show ?thesis
    using run3 run1 rec3 rec1 less3 on3 off3 on1 off1 by blast
qed

section \<open>Normalization of the dataset\<close>

lemma isnan_times_pos: "0 < f \<Longrightarrow> isnan (x * Fin f) = isnan x"
  by (cases x) simp_all

lemma filter_isnan_scaled:
  assumes "0 < f"
  shows "filter (\<lambda>x. \<not> isnan x) (map (\<lambda>x. x * Fin f) xs)
         = map (\<lambda>x. x * Fin f) (filter (\<lambda>x. \<not> isnan x) xs)"
  by (induction xs) (simp_all add: isnan_times_pos [OF assms])

lemma plus_times_pos:
  "0 < f \<Longrightarrow> (x + y) * Fin f = x * Fin f + y * Fin f"
  by (cases x; cases y; simp add: distrib_right)

lemma sum_list_scaled:
  assumes "0 < f"
  shows "sum_list (map (\<lambda>x. x * Fin f) xs) = sum_list xs * Fin f"
  by (induction xs) (simp_all add: plus_times_pos [OF assms] zero_fval_def)

lemma divide_times_pos:
  "0 < f \<Longrightarrow> 0 < n \<Longrightarrow> (x * Fin f) / Fin n = (x / Fin n) * Fin f"
  by (cases x) simp_all

lemma pd_mean_scaled:
  assumes "0 < f"
  shows "pd_mean (map (\<lambda>x. x * Fin f) xs) = pd_mean xs * Fin f"
proof (cases "filter (\<lambda>x. \<not> isnan x) xs = []")
  case True
  then show ?thesis
    by (simp add: pd_mean_def Let_def filter_isnan_scaled [OF assms])
next
  case False
  then have "0 < real (length (filter (\<lambda>x. \<not> isnan x) xs))"
    by simp
  then show ?thesis
    using False
    by (simp add: pd_mean_def Let_def filter_isnan_scaled [OF assms]
        sum_list_scaled [OF assms] divide_times_pos [OF assms])
qed

lemma ratio_scaled:
  "0 < f \<Longrightarrow> (r * Fin f) / (u * Fin f) = r / u"
  by (cases r; cases u; simp add: zero_less_mult_iff zero_le_mult_iff)

text \<open>
  C3. For a dataset whose mean of \<open>num_users\<close> is a positive number \<open>m\<close>, and a positive
  target \<open>avg_num_users\<close>, normalization returns the dataset with \<open>num_users\<close> and
  \<open>num_requests\<close> of every row multiplied by \<open>avg_num_users / m\<close>; the dataset is not
  empty, the mean of \<open>num_users\<close> is then \<open>avg_num_users\<close>, and the ratio
  \<open>num_requests / num_users\<close> of every row is what it was (in exact arithmetic).
\<close>

theorem normalization_scales:
  assumes "pd_mean (map num_users (user_data self)) = Fin m" and "0 < m"
    and "0 < avg_num_users (params self)"
  shows "\<exists>s'. adjust_dataset self = Inr s'
           \<and> params s' = params self
           \<and> user_data s'
               = map (\<lambda>r. \<lparr>num_users = num_users r * Fin (real_of_int (avg_num_users (params self)) / m),
                            num_requests = num_requests r * Fin (real_of_int (avg_num_users (params self)) / m)\<rparr>)
                   (user_data self)
           \<and> user_data s' \<noteq> []
           \<and> pd_mean (map num_users (user_data s')) = Fin (real_of_int (avg_num_users (params self)))
           \<and> (\<forall>i. i < length (user_data self) \<longrightarrow>
                 num_requests (user_data s' ! i) / num_users (user_data s' ! i)
                 = num_requests (user_data self ! i) / num_users (user_data self ! i))"
proof -
  let ?U = "real_of_int (avg_num_users (params self))"
  let ?f = "?U / m"
  let ?s = "self\<lparr>user_data :=
      map (\<lambda>r. \<lparr>num_users = num_users r * Fin ?f, num_requests = num_requests r * Fin ?f\<rparr>)
        (user_data self)\<rparr>"
  have f: "0 < ?f"
    using assms(2,3) by simp
  have fac: "Fin ?U / pd_mean (map num_users (user_data self)) = Fin ?f"
    using assms(1,2) by simp
  have adj: "adjust_dataset self = Inr ?s"
    by (simp add: adjust_dataset_def Let_def fac)
  have ne: "user_data self \<noteq> []"
    using assms(1) by (auto simp add: pd_mean_def)
  have "map num_users (user_data ?s) = map (\<lambda>x. x * Fin ?f) (map num_users (user_data self))"
    by (simp add: comp_def)
  then have "pd_mean (map num_users (user_data ?s)) = Fin m * Fin ?f"
    by (simp only: pd_mean_scaled [OF f] assms(1))
  then have mean: "pd_mean (map num_users (user_data ?s)) = Fin ?U"
    using assms(2) by simp
  have ratio: "num_requests (user_data ?s ! i) / num_users (user_data ?s ! i)
      = num_requests (user_data self ! i) / num_users (user_data self ! i)"
    if "i < length (user_data self)" for i
    using that by (simp add: ratio_scaled [OF f])
  have "params ?s = params self" "user_data ?s \<noteq> []"
    using ne by simp_all
  then show ?thesis
    using adj mean ratio by (intro exI [of _ ?s]) simp
qed

theorem normalization_scales_witness:
  "\<exists>s'. adjust_dataset doubling_scenario = Inr s'
     \<and> user_data s' = [\<lparr>num_users = Fin 200, num_requests = Fin 2000\<rparr>,
                        \<lparr>num_users = Fin 400, num_requests = Fin 4000\<rparr>,
                        \<lparr>num_users = Fin 300, num_requests = Fin 3000\<rparr>]
     \<and> pd_mean (map num_users (user_data s')) = Fin 300
     \<and> num_requests (user_data s' ! 0) / num_users (user_data s' ! 0)
         = num_requests (user_data doubling_scenario ! 0)
           / num_users (user_data doubling_scenario ! 0)"
proof -
  have m: "pd_mean (map num_users (user_data doubling_scenario)) = Fin 150"
    by (simp add: doubling_scenario_def scenario_defs pd_mean_def zero_fval_def)
  have u: "0 < avg_num_users (params doubling_scenario)"
    "avg_num_users (params doubling_scenario) = 300"
    by (simp_all add: doubling_scenario_def scenario_defs)
  have d: "user_data doubling_scenario = scenario_data"
    by (simp add: doubling_scenario_def scenario_defs)
  from normalization_scales [OF m _ u(1)] obtain s' where
    "adjust_dataset doubling_scenario = Inr s'"
    "user_data s' = map (\<lambda>r. \<lparr>num_users = num_users r * Fin (300 / 150),
                            num_requests = num_requests r * Fin (300 / 150)\<rparr>) scenario_data"
    "pd_mean (map num_users (user_data s')) = Fin 300"
    unfolding u(2) d by auto
  then show ?thesis
    by (simp add: d scenario_data_def)
qed

section \<open>Normalization of an empty or idle dataset\<close>

lemma times_not_finite: "\<not> isfinite f \<Longrightarrow> \<not> isfinite (x * f)"
  by (cases x; cases f; simp)

lemma divide_zero_not_finite: "\<not> isfinite (x / Fin 0)"
  by (cases x) simp_all

text \<open>
  C7 (as the code has it). Normalization raises no error: for every dataset it returns a
  dataset of the same length, with the parameters as they were. An empty dataset, whose
  mean is \<open>nan\<close>, is returned as it is; a dataset whose mean of \<open>num_users\<close> is 0 is
  returned with every \<open>num_users\<close> and \<open>num_requests\<close> infinite or \<open>nan\<close>.
\<close>

theorem normalization_never_raises:
  "(\<exists>s'. adjust_dataset self = Inr s' \<and> params s' = params self
         \<and> length (user_data s') = length (user_data self))
   \<and> (user_data self = [] \<longrightarrow> adjust_dataset self = Inr self)
   \<and> (pd_mean (map num_users (user_data self)) = Fin 0 \<longrightarrow>
        (\<exists>s'. adjust_dataset self = Inr s'
           \<and> (\<forall>r \<in> set (user_data s'). \<not> isfinite (num_users r)
                                        \<and> \<not> isfinite (num_requests r))))"
proof -
  have a: "\<exists>s'. adjust_dataset self = Inr s' \<and> params s' = params self
         \<and> length (user_data s') = length (user_data self)"
    by (simp add: adjust_dataset_def Let_def)
  have b: "adjust_dataset self = Inr self" if "user_data self = []"
    using that by (simp add: adjust_dataset_def Let_def)
  have c: "\<exists>s'. adjust_dataset self = Inr s'
           \<and> (\<forall>r \<in> set (user_data s'). \<not> isfinite (num_users r)
                                        \<and> \<not> isfinite (num_requests r))"
    if "pd_mean (map num_users (user_data self)) = Fin 0"
    by (simp add: adjust_dataset_def Let_def that times_not_finite divide_zero_not_finite)
  show ?thesis
    using a b c by blast
qed

theorem normalization_never_raises_witness:
  "adjust_dataset empty_dataset = Inr empty_dataset
   \<and> (\<exists>s'. adjust_dataset idle_dataset = Inr s'
          \<and> (\<forall>r \<in> set (user_data s'). \<not> isfinite (num_users r)
                                       \<and> \<not> isfinite (num_requests r)))"
proof -
  have e: "user_data empty_dataset = []"
    by (simp add: empty_dataset_def)
  have z: "pd_mean (map num_users (user_data idle_dataset)) = Fin 0"
    by (simp add: idle_dataset_def pd_mean_def zero_fval_def)
  show ?thesis
    using normalization_never_raises [of empty_dataset]
      normalization_never_raises [of idle_dataset] e z by blast
qed

text \<open>
  Normalization returns on the dataset without rows, and on the dataset of one row with
  no users and ten requests, for which it returns \<open>nan\<close> users and infinitely many
  requests.
\<close>

theorem normalization_counterexample:
  "pd_mean (map num_users (user_data empty_dataset)) = NaN
   \<and> adjust_dataset empty_dataset = Inr empty_dataset
   \<and> pd_mean (map num_users (user_data idle_dataset)) = Fin 0
   \<and> adjust_dataset idle_dataset
       = Inr (idle_dataset\<lparr>user_data := [\<lparr>num_users = NaN, num_requests = PInf\<rparr>]\<rparr>)"
  by (simp add: adjust_dataset_def pd_mean_def empty_dataset_def idle_dataset_def
      scenario_defs Let_def zero_fval_def)

end
